theory Spec2Isabelle
  imports Complex_Main
begin

section \<open>JavaScript values used by index.js\<close>

text \<open>
  A JavaScript number, as far as the classifier looks at it: NaN, the two infinities, or
  a finite value, taken as the real number it denotes (the sign of zero plays no part in
  a comparison). The scores come out of a typed array, so every element is a number.
\<close>

datatype jsnum = NaN | NegInf | Fin real | PosInf

text \<open>The relational operators \<open><=\<close> and \<open>>\<close>: every comparison with NaN is false.\<close>

fun js_le :: "jsnum \<Rightarrow> jsnum \<Rightarrow> bool" where
  "js_le NaN _ = False"
| "js_le _ NaN = False"
| "js_le NegInf _ = True"
| "js_le _ PosInf = True"
| "js_le (Fin a) (Fin b) = (a \<le> b)"
| "js_le (Fin _) NegInf = False"
| "js_le PosInf _ = False"


text \<open>
  \<open>Math.max(...xs)\<close>: starts from \<open>-Infinity\<close>, keeps the larger value, and is NaN as
  soon as one argument is NaN.
\<close>

fun max2 :: "jsnum \<Rightarrow> jsnum \<Rightarrow> jsnum" where
  "max2 NaN _ = NaN"
| "max2 _ NaN = NaN"
| "max2 a b = (if js_le a b then b else a)"

definition Math_max :: "jsnum list \<Rightarrow> jsnum" where
  "Math_max xs = foldl max2 NegInf xs"

text \<open>
  The operator \<open>*\<close> on numbers. The product of two finite values is rounded to a double
  by the platform; the rounding \<open>rnd\<close> is a parameter (it may also overflow to an
  infinity), so nothing below depends on how it rounds.
\<close>

definition js_sign_inf :: "bool \<Rightarrow> jsnum" where
  "js_sign_inf positive = (if positive then PosInf else NegInf)"

fun js_mul :: "(real \<Rightarrow> jsnum) \<Rightarrow> jsnum \<Rightarrow> jsnum \<Rightarrow> jsnum" where
  "js_mul rnd NaN _ = NaN"
| "js_mul rnd _ NaN = NaN"
| "js_mul rnd (Fin a) (Fin b) = rnd (a * b)"
| "js_mul rnd (Fin a) PosInf = (if a = 0 then NaN else js_sign_inf (a > 0))"
| "js_mul rnd (Fin a) NegInf = (if a = 0 then NaN else js_sign_inf (a < 0))"
| "js_mul rnd PosInf (Fin b) = (if b = 0 then NaN else js_sign_inf (b > 0))"
| "js_mul rnd NegInf (Fin b) = (if b = 0 then NaN else js_sign_inf (b < 0))"
| "js_mul rnd PosInf PosInf = PosInf"
| "js_mul rnd NegInf NegInf = PosInf"
| "js_mul rnd PosInf NegInf = NegInf"
| "js_mul rnd NegInf PosInf = NegInf"

text \<open>
  Objects sent as JSON: the response bodies and the documents written to Firestore.
\<close>

datatype json = JString string | JObject "(string \<times> json) list" | JArray "json list"

section \<open>Errors\<close>

text \<open>
  \<open>class InputError extends Error\<close> (lines 12 to 18): the constructor takes the message
  and fixes \<open>name\<close> and \<open>statusCode\<close>. Every other exception (a TypeError, an error
  thrown by TensorFlow, by Firestore or by the storage client) is \<open>OtherError\<close> with its
  message.
\<close>

datatype jsError = InputError string | OtherError string

fun message :: "jsError \<Rightarrow> string" where
  "message (InputError m) = m"
| "message (OtherError m) = m"

fun name :: "jsError \<Rightarrow> string" where
  "name (InputError _) = ''InputError''"
| "name (OtherError _) = ''Error''"

fun statusCode :: "jsError \<Rightarrow> nat option" where
  "statusCode (InputError _) = Some 400"
| "statusCode (OtherError _) = None"

fun instanceof_InputError :: "jsError \<Rightarrow> bool" where
  "instanceof_InputError (InputError _) = True"
| "instanceof_InputError (OtherError _) = False"


section \<open>The world outside the program\<close>

text \<open>
  A tensor, as far as the program handles one: a shape and the flat list of its values.
  The loaded graph model is its \<open>predict\<close> method, which returns a tensor or throws.
\<close>

record tensor =
  shape :: "nat list"
  vals :: "jsnum list"

type_synonym graphModel = "tensor \<Rightarrow> jsError + tensor"

text \<open>The \<open>image\<close> field of a payload: \<open>None\<close> is \<open>undefined\<close> (no such field).\<close>

type_synonym jsImage = "string option"

datatype node = Dir | File string

text \<open>Every call that leaves the program is recorded, in the order the calls are made.\<close>

datatype event =
    ReadFileSync string
  | HapiServer
  | ExistsSync string
  | MkdirSync string
  | Download string string string
  | ConsoleLog string
  | LoadGraphModel string
  | ServerRoute
  | ServerExt
  | ServerStart
  | DecodeJpeg
  | ResizeNearestNeighbor nat nat
  | ExpandDims nat
  | ToFloat
  | ModelPredict
  | TensorData
  | RandomUUID
  | NewDate
  | FirestoreSet string string

text \<open>
  What the libraries and services answer. Each is a parameter: TensorFlow's operations,
  the storage bucket, Firestore, the random identifiers and the clock (both indexed by the
  number of values drawn so far), the rounding of a product, the largest number of
  arguments the engine accepts in one call, and whether the listener can be opened.
\<close>

record env =
  dirname :: string
  env_PORT :: "string option"
  bucket_file :: "string \<Rightarrow> string \<Rightarrow> jsError + string"
  loadGraphModel :: "(string \<rightharpoonup> node) \<Rightarrow> string \<Rightarrow> jsError + graphModel"
  decodeJpeg :: "jsImage \<Rightarrow> jsError + tensor"
  resizeNearestNeighbor :: "tensor \<Rightarrow> nat \<times> nat \<Rightarrow> jsError + tensor"
  expandDims :: "tensor \<Rightarrow> nat \<Rightarrow> jsError + tensor"
  toFloat :: "tensor \<Rightarrow> jsError + tensor"
  tensor_data :: "tensor \<Rightarrow> jsError + jsnum list"
  rnd :: "real \<Rightarrow> jsnum"
  spread_limit :: nat
  randomUUID :: "nat \<Rightarrow> string"
  toISOString :: "nat \<Rightarrow> string"
  firestore_set :: "string \<Rightarrow> string \<Rightarrow> json \<Rightarrow> jsError option"
  server_start :: "jsError option"

record payload_options =
  allow :: string
  multipart :: bool
  maxBytes :: nat

datatype handler = Predict | PostPredictHistories

record route =
  path :: string
  method' :: string
  handler :: handler
  options :: payload_options

record server =
  port :: string
  app_model :: "graphModel option"
  route_table :: "route list"
  listening :: bool

record world =
  files :: "string \<rightharpoonup> node"
  firestore :: "string \<Rightarrow> string \<rightharpoonup> json"
  drawn :: nat
  server :: server
  trace :: "event list"

section \<open>Sequencing, exceptions and calls\<close>

text \<open>
  A computation takes the world and returns a value or the exception thrown, with the
  world as it left it. \<open>io_catch\<close> is \<open>try { ... } catch (error) { ... }\<close>.
\<close>

type_synonym 'a io = "world \<Rightarrow> (jsError + 'a) \<times> world"

definition io_return :: "'a \<Rightarrow> 'a io" where
  "io_return x = (\<lambda>w. (Inr x, w))"

definition io_throw :: "jsError \<Rightarrow> 'a io" where
  "io_throw e = (\<lambda>w. (Inl e, w))"

definition io_bind :: "'a io \<Rightarrow> ('a \<Rightarrow> 'b io) \<Rightarrow> 'b io" where
  "io_bind m f = (\<lambda>w. case m w of (Inl e, w') \<Rightarrow> (Inl e, w') | (Inr x, w') \<Rightarrow> f x w')"

definition io_catch :: "'a io \<Rightarrow> (jsError \<Rightarrow> 'a io) \<Rightarrow> 'a io" where
  "io_catch m h = (\<lambda>w. case m w of (Inl e, w') \<Rightarrow> h e w' | (Inr x, w') \<Rightarrow> (Inr x, w'))"

definition io_of :: "jsError + 'a \<Rightarrow> 'a io" where
  "io_of r = (\<lambda>w. (r, w))"

definition io_call :: "event \<Rightarrow> jsError + 'a \<Rightarrow> 'a io" where
  "io_call ev r = (\<lambda>w. (r, w\<lparr>trace := trace w @ [ev]\<rparr>))"

section \<open>predictClassification (lines 64 to 85)\<close>

record classification =
  label :: string
  suggestion :: string

text \<open>
  What \<open>model.predict(tensor)\<close> gives: on \<open>undefined\<close> the property access throws a
  TypeError.
\<close>

definition model_predict :: "graphModel option \<Rightarrow> tensor \<Rightarrow> jsError + tensor" where
  "model_predict model t =
     (case model of
        None \<Rightarrow> Inl (OtherError ''Cannot read properties of undefined'')
      | Some m \<Rightarrow> m t)"

text \<open>
  The call \<open>model.predict(tensor)\<close> as it happens: on \<open>undefined\<close> the exception comes
  from the property access and no call is made.
\<close>

definition call_model_predict :: "graphModel option \<Rightarrow> tensor \<Rightarrow> tensor io" where
  "call_model_predict model t =
     (case model of
        None \<Rightarrow> io_throw (OtherError ''Cannot read properties of undefined'')
      | Some m \<Rightarrow> io_call ModelPredict (m t))"

text \<open>
  \<open>Math.max(...score)\<close>: the spread passes every element as an argument of its own, and
  the engine throws a RangeError when there are more of them than it accepts.
\<close>

definition Math_max_spread :: "nat \<Rightarrow> jsnum list \<Rightarrow> jsError + jsnum" where
  "Math_max_spread limit xs =
     (if limit < length xs then Inl (OtherError ''Maximum call stack size exceeded'')
      else Inr (Math_max xs))"

definition predictClassification :: "env \<Rightarrow> graphModel option \<Rightarrow> jsImage \<Rightarrow> classification io" where
  "predictClassification e model img =
     io_catch
       (io_bind (io_call DecodeJpeg (decodeJpeg e img)) (\<lambda>decoded.
        io_bind (io_call (ResizeNearestNeighbor 224 224)
                   (resizeNearestNeighbor e decoded (224, 224))) (\<lambda>resized.
        io_bind (io_call (ExpandDims 0) (expandDims e resized 0)) (\<lambda>expanded.
        io_bind (io_call ToFloat (toFloat e expanded)) (\<lambda>tensor.
        io_bind (call_model_predict model tensor) (\<lambda>prediction.
        io_bind (io_call TensorData (tensor_data e prediction)) (\<lambda>score.
        io_bind (io_of (Math_max_spread (spread_limit e) score)) (\<lambda>maxScore.
          let confidenceScore = js_mul (rnd e) maxScore (Fin 100);
              label = (if js_le confidenceScore (Fin 50) then ''Non-cancer'' else ''Cancer'');
              suggestion = (if label = ''Cancer'' then ''Segera periksa ke dokter!''
                            else ''Penyakit kanker tidak terdeteksi.'')
          in io_return \<lparr>label = label, suggestion = suggestion\<rparr>))))))))
       (\<lambda>error. io_throw (InputError ''Terjadi kesalahan dalam melakukan prediksi''))"


definition io_gets :: "(world \<Rightarrow> 'a) \<Rightarrow> 'a io" where
  "io_gets f = (\<lambda>w. (Inr (f w), w))"

definition io_update :: "(world \<Rightarrow> world) \<Rightarrow> unit io" where
  "io_update f = (\<lambda>w. (Inr (), f w))"

definition io_modify :: "event \<Rightarrow> (world \<Rightarrow> world) \<Rightarrow> unit io" where
  "io_modify ev f = (\<lambda>w. (Inr (), (f w)\<lparr>trace := trace w @ [ev]\<rparr>))"

definition io_draw :: "event \<Rightarrow> (nat \<Rightarrow> 'a) \<Rightarrow> 'a io" where
  "io_draw ev f = (\<lambda>w. (Inr (f (drawn w)), w\<lparr>drawn := Suc (drawn w), trace := trace w @ [ev]\<rparr>))"

fun io_forEach :: "'a list \<Rightarrow> ('a \<Rightarrow> unit io) \<Rightarrow> unit io" where
  "io_forEach [] f = io_return ()"
| "io_forEach (x # xs) f = io_bind (f x) (\<lambda>_. io_forEach xs f)"

definition console_log :: "string \<Rightarrow> unit io" where
  "console_log s = io_call (ConsoleLog s) (Inr ())"

section \<open>Fetching and loading the model (lines 20 to 54)\<close>

definition BUCKET_NAME :: string where
  "BUCKET_NAME = ''model_mlgc_yasin''"

definition MODEL_PATH :: string where
  "MODEL_PATH = ''model.json''"

definition path_join :: "string \<Rightarrow> string \<Rightarrow> string" where
  "path_join a b = a @ ''/'' @ b"

definition existsSync :: "string \<Rightarrow> bool io" where
  "existsSync p = (\<lambda>w. (Inr (files w p \<noteq> None), w\<lparr>trace := trace w @ [ExistsSync p]\<rparr>))"

definition mkdirSync :: "string \<Rightarrow> unit io" where
  "mkdirSync p = (\<lambda>w.
     let w' = w\<lparr>trace := trace w @ [MkdirSync p]\<rparr> in
     if files w p \<noteq> None then (Inl (OtherError ''EEXIST''), w')
     else (Inr (), w'\<lparr>files := (files w)(p \<mapsto> Dir)\<rparr>))"

definition readFileSync :: "string \<Rightarrow> string io" where
  "readFileSync p = (\<lambda>w.
     let w' = w\<lparr>trace := trace w @ [ReadFileSync p]\<rparr> in
     case files w p of
       Some (File content) \<Rightarrow> (Inr content, w')
     | Some Dir \<Rightarrow> (Inl (OtherError ''EISDIR''), w')
     | None \<Rightarrow> (Inl (OtherError ''ENOENT''), w'))"

text \<open>
  \<open>storage.bucket(bucketName).file(srcFilename).download({destination})\<close>: the transfer
  either fails, whatever the cause, or leaves the object's contents at the destination.
\<close>

definition download :: "env \<Rightarrow> string \<Rightarrow> string \<Rightarrow> string \<Rightarrow> unit io" where
  "download e bucketName srcFilename destination = (\<lambda>w.
     let w' = w\<lparr>trace := trace w @ [Download bucketName srcFilename destination]\<rparr> in
     case bucket_file e bucketName srcFilename of
       Inl err \<Rightarrow> (Inl err, w')
     | Inr content \<Rightarrow> (Inr (), w'\<lparr>files := (files w)(destination \<mapsto> File content)\<rparr>))"

definition downloadFile :: "env \<Rightarrow> string \<Rightarrow> string \<Rightarrow> string \<Rightarrow> unit io" where
  "downloadFile e bucketName srcFilename destFilename =
     io_bind (download e bucketName srcFilename destFilename) (\<lambda>_.
     console_log (''Downloaded '' @ srcFilename @ '' to '' @ destFilename))"

definition modelWeights :: "string list" where
  "modelWeights =
     [''group1-shard1of4.bin'', ''group1-shard2of4.bin'',
      ''group1-shard3of4.bin'', ''group1-shard4of4.bin'']"

definition tf_loadGraphModel :: "env \<Rightarrow> string \<Rightarrow> graphModel io" where
  "tf_loadGraphModel e url =
     (\<lambda>w. (loadGraphModel e (files w) url, w\<lparr>trace := trace w @ [LoadGraphModel url]\<rparr>))"

definition loadModel :: "env \<Rightarrow> graphModel io" where
  "loadModel e =
     (let modelDir = path_join (dirname e) ''model'' in
      io_bind (existsSync modelDir) (\<lambda>ex.
      io_bind (if \<not> ex then mkdirSync modelDir else io_return ()) (\<lambda>_.
      let modelJsonPath = path_join modelDir ''model.json'' in
      io_bind (downloadFile e BUCKET_NAME MODEL_PATH modelJsonPath) (\<lambda>_.
      io_bind (io_forEach modelWeights
                 (\<lambda>weight. downloadFile e BUCKET_NAME weight (path_join modelDir weight))) (\<lambda>_.
      io_bind (tf_loadGraphModel e (''file://'' @ modelJsonPath)) (\<lambda>model.
      io_return model))))))"

section \<open>storeData (lines 57 to 61)\<close>

definition storeData :: "env \<Rightarrow> string \<Rightarrow> json \<Rightarrow> unit io" where
  "storeData e id' data = (\<lambda>w.
     let w' = w\<lparr>trace := trace w @ [FirestoreSet ''predictions'' id']\<rparr> in
     case firestore_set e ''predictions'' id' data of
       Some err \<Rightarrow> (Inl err, w')
     | None \<Rightarrow>
         (Inr (), w'\<lparr>firestore :=
            (firestore w)(''predictions'' := (firestore w ''predictions'')(id' \<mapsto> data))\<rparr>))"


section \<open>The handlers (lines 87 to 130)\<close>

text \<open>
  A request as a handler sees it: \<open>request.payload\<close> is \<open>None\<close> when it is null, and
  otherwise maps the names of the form's fields to their contents.
\<close>

record request =
  req_method :: string
  req_path :: string
  payload :: "(string \<rightharpoonup> string) option"

record response =
  code :: nat
  body :: json

text \<open>\<open>h.response(value)\<close> makes a response with status 200; \<open>response.code(n)\<close> sets it.\<close>

definition h_response :: "json \<Rightarrow> response" where
  "h_response value = \<lparr>code = 200, body = value\<rparr>"

definition predict :: "env \<Rightarrow> request \<Rightarrow> response io" where
  "predict e request =
     (case payload request of
        None \<Rightarrow> io_throw (OtherError ''Cannot destructure property image of request.payload'')
      | Some form \<Rightarrow>
          let img = form ''image'' in
          io_bind (io_gets (\<lambda>w. app_model (server w))) (\<lambda>model.
          io_bind (predictClassification e model img) (\<lambda>c.
          io_bind (io_draw RandomUUID (randomUUID e)) (\<lambda>id'.
          io_bind (io_draw NewDate (toISOString e)) (\<lambda>createdAt.
          let data = JObject
                [(''id'', JString id'),
                 (''result'', JString (label c)),
                 (''suggestion'', JString (suggestion c)),
                 (''createdAt'', JString createdAt)] in
          io_bind (storeData e id' data) (\<lambda>_.
          let response = h_response (JObject
                [(''status'', JString ''success''),
                 (''message'', JString ''Model is predicted successfully''),
                 (''data'', data)]) in
          io_return (response\<lparr>code := 201\<rparr>)))))))"

text \<open>
  \<open>getAllData\<close> is called at line 110 and is neither defined nor imported anywhere in
  index.js: evaluating the call throws a ReferenceError.
\<close>

definition getAllData :: "(string \<times> json) list io" where
  "getAllData = io_throw (OtherError ''getAllData is not defined'')"

text \<open>A property of a document; a property that is \<open>undefined\<close> is left out of the JSON.\<close>

fun property :: "string \<Rightarrow> json \<Rightarrow> string \<Rightarrow> (string \<times> json) list" where
  "property k (JObject kvs) f = (case map_of kvs f of Some v \<Rightarrow> [(k, v)] | None \<Rightarrow> [])"
| "property k _ f = []"

definition postPredictHistoriesHandler :: "env \<Rightarrow> request \<Rightarrow> response io" where
  "postPredictHistoriesHandler e request =
     io_bind getAllData (\<lambda>allData.
     let formatAllData =
           map (\<lambda>(doc_id, data).
                  JObject [(''id'', JString doc_id),
                           (''history'', JObject
                              (property ''result'' data ''result'' @
                               property ''createdAt'' data ''createdAt'' @
                               property ''suggestion'' data ''suggestion'' @
                               [(''id'', JString doc_id)]))])
               allData;
         response = h_response (JObject
               [(''status'', JString ''success''), (''data'', JArray formatAllData)])
     in io_return (response\<lparr>code := 200\<rparr>))"

section \<open>The route table and the response extension (lines 132 to 188)\<close>

definition routes :: "route list" where
  "routes =
     [\<lparr>path = ''/predict'', method' = ''POST'', handler = Predict,
       options = \<lparr>allow = ''multipart/form-data'', multipart = True, maxBytes = 1000000\<rparr>\<rparr>]"

fun run_handler :: "handler \<Rightarrow> env \<Rightarrow> request \<Rightarrow> response io" where
  "run_handler Predict = predict"
| "run_handler PostPredictHistories = postPredictHistoriesHandler"

text \<open>
  \<open>request.response\<close> in the extension is either the handler's response or an error, which
  the framework has made a Boom error: \<open>isBoom\<close> holds and \<open>output.statusCode\<close> is set.
\<close>

definition fail_body :: "string \<Rightarrow> json" where
  "fail_body m = JObject [(''status'', JString ''fail''), (''message'', JString m)]"

fun onPreResponse :: "(jsError \<times> nat) + response \<Rightarrow> response" where
  "onPreResponse (Inl (err, output_statusCode)) =
     (if instanceof_InputError err
      then (h_response (fail_body (message err)))\<lparr>code := the (statusCode err)\<rparr>
      else (h_response (fail_body (message err)))\<lparr>code := output_statusCode\<rparr>)"
| "onPreResponse (Inr response) = response"

text \<open>
  The framework's part of a request, as far as index.js relies on it: a server that is
  not listening answers nothing; a request that matches no route is a 404 Boom error; an
  error thrown by a handler is a 500 Boom error; every response passes the extension.
  The request is one whose payload the route's options have accepted.
\<close>

definition lookup_route :: "route list \<Rightarrow> string \<Rightarrow> string \<Rightarrow> route option" where
  "lookup_route rs m p = find (\<lambda>r. method' r = m \<and> path r = p) rs"

definition handleRequest :: "env \<Rightarrow> request \<Rightarrow> world \<Rightarrow> response option \<times> world" where
  "handleRequest e request w =
     (if \<not> listening (server w) then (None, w)
      else case lookup_route (route_table (server w)) (req_method request) (req_path request) of
        None \<Rightarrow> (Some (onPreResponse (Inl (OtherError ''Not Found'', 404))), w)
      | Some r \<Rightarrow>
          (case run_handler (handler r) e request w of
             (Inl err, w') \<Rightarrow> (Some (onPreResponse (Inl (err, 500))), w')
           | (Inr response, w') \<Rightarrow> (Some (onPreResponse (Inr response)), w')))"

section \<open>Startup (lines 148 to 192)\<close>

definition Hapi_server :: "string \<Rightarrow> unit io" where
  "Hapi_server p =
     io_modify HapiServer
       (\<lambda>w. w\<lparr>server := \<lparr>port = p, app_model = None, route_table = [],
                           listening = False\<rparr>\<rparr>)"

definition server_route :: "route list \<Rightarrow> unit io" where
  "server_route rs =
     io_modify ServerRoute
       (\<lambda>w. w\<lparr>server := (server w)\<lparr>route_table := route_table (server w) @ rs\<rparr>\<rparr>)"

text \<open>
  \<open>server.ext('onPreResponse', ...)\<close> registers the extension \<open>onPreResponse\<close>; from
  then on the server passes every response through it.
\<close>

definition server_ext :: "unit io" where
  "server_ext = io_call ServerExt (Inr ())"

definition server_start_call :: "env \<Rightarrow> unit io" where
  "server_start_call e = (\<lambda>w.
     let w' = w\<lparr>trace := trace w @ [ServerStart]\<rparr> in
     case server_start e of
       Some err \<Rightarrow> (Inl err, w')
     | None \<Rightarrow> (Inr (), w'\<lparr>server := (server w)\<lparr>listening := True\<rparr>\<rparr>))"

text \<open>
  The module from its first effect on: the two reads of the TLS material at lines 148 to
  151, then the body of the function at lines 153 to 192.
\<close>

definition main :: "env \<Rightarrow> unit io" where
  "main e =
     io_bind (readFileSync (path_join (path_join (dirname e) ''cert'') ''key.pem'')) (\<lambda>key.
     io_bind (readFileSync (path_join (path_join (dirname e) ''cert'') ''cert.pem'')) (\<lambda>cert.
     io_bind (Hapi_server (case env_PORT e of None \<Rightarrow> ''3000''
                           | Some p \<Rightarrow> if p = [] then ''3000'' else p)) (\<lambda>_.
     io_bind (loadModel e) (\<lambda>model.
     io_bind (io_update
                (\<lambda>w. w\<lparr>server := (server w)\<lparr>app_model := Some model\<rparr>\<rparr>)) (\<lambda>_.
     io_bind (server_route routes) (\<lambda>_.
     io_bind server_ext (\<lambda>_.
     io_bind (server_start_call e) (\<lambda>_.
     io_bind (io_gets (\<lambda>w. port (server w))) (\<lambda>p.
     console_log (''Server start at: https://0.0.0.0:'' @ p))))))))))"

text \<open>A process that has just started: nothing has been called and no server exists.\<close>

definition boot :: "(string \<rightharpoonup> node) \<Rightarrow> (string \<Rightarrow> string \<rightharpoonup> json) \<Rightarrow> world" where
  "boot fs db =
     \<lparr>files = fs, firestore = db, drawn = 0,
      server = \<lparr>port = [], app_model = None, route_table = [],
                listening = False\<rparr>,
      trace = []\<rparr>"


section \<open>The preprocessor as the specification words it\<close>

text \<open>
  Section 4.3 of the specification: decode the bytes as a JPEG image, resize to 224 by
  224 with nearest-neighbour interpolation, add a leading batch dimension (axis 0), convert
  to floating point, and nothing after that. A step that fails ends the sequence.
\<close>

definition and_then :: "jsError + 'a \<Rightarrow> ('a \<Rightarrow> jsError + 'b) \<Rightarrow> jsError + 'b" where
  "and_then r f = (case r of Inl err \<Rightarrow> Inl err | Inr x \<Rightarrow> f x)"

definition preprocess :: "env \<Rightarrow> jsImage \<Rightarrow> jsError + tensor" where
  "preprocess e imageBytes =
     and_then (and_then (and_then (decodeJpeg e imageBytes)
       (\<lambda>t. resizeNearestNeighbor e t (224, 224)))
       (\<lambda>t. expandDims e t 0))
       (\<lambda>t. toFloat e t)"


text \<open>The calls made between two states of the world.\<close>

definition events_since :: "world \<Rightarrow> world \<Rightarrow> event list" where
  "events_since w w' = drop (length (trace w)) (trace w')"

section \<open>A small environment for the concrete cases\<close>

text \<open>
  A model that answers a fixed score vector on a tensor of the expected shape, and
  libraries that do the least possible: the decoder rejects a missing image and bytes
  that do not start as it expects, the bucket holds the five artifact files, every other
  call succeeds.
\<close>

definition stub_model :: "jsnum list \<Rightarrow> graphModel" where
  "stub_model scores =
     (\<lambda>t. if shape t = [1, 224, 224, 3] then Inr \<lparr>shape = [1, length scores], vals = scores\<rparr>
          else Inl (OtherError ''shape mismatch''))"

definition stub_env :: "jsnum list \<Rightarrow> env" where
  "stub_env scores =
     \<lparr>dirname = ''/app'', env_PORT = None,
      bucket_file = (\<lambda>b f. if b = BUCKET_NAME \<and> f \<in> set (MODEL_PATH # modelWeights)
                            then Inr f else Inl (OtherError ''No such object'')),
      loadGraphModel = (\<lambda>fs url. case fs (drop 7 url) of
                            Some (File _) \<Rightarrow> Inr (stub_model scores)
                          | _ \<Rightarrow> Inl (OtherError ''model.json not found'')),
      decodeJpeg = (\<lambda>i. case i of
                            None \<Rightarrow> Inl (OtherError ''contents must be a Uint8Array'')
                          | Some bytes \<Rightarrow>
                              if take 4 bytes \<noteq> ''JFIF''
                              then Inl (OtherError ''Expected image (JPEG), but got unknown format'')
                              else Inr \<lparr>shape = [1, 1, 3], vals = [Fin 10, Fin 20, Fin 30]\<rparr>),
      resizeNearestNeighbor = (\<lambda>t (h, w). Inr (t\<lparr>shape := [h, w, 3]\<rparr>)),
      expandDims = (\<lambda>t axis. Inr (t\<lparr>shape := take axis (shape t) @ 1 # drop axis (shape t)\<rparr>)),
      toFloat = Inr,
      tensor_data = (\<lambda>t. Inr (vals t)),
      rnd = Fin,
      spread_limit = 125000,
      randomUUID = (\<lambda>n. if n = 0 then ''3f2b8c1e-5d4a-4c7b-9e6f-0a1b2c3d4e5f''
                          else ''7c9e6679-7425-40de-944b-e07fc1f90ae7''),
      toISOString = (\<lambda>n. ''2024-01-01T00:00:00.000Z''),
      firestore_set = (\<lambda>_ _ _. None),
      server_start = None\<rparr>"

text \<open>A property of a JSON object, if it has it.\<close>

fun json_get :: "json \<Rightarrow> string \<Rightarrow> json option" where
  "json_get (JObject kvs) k = map_of kvs k"
| "json_get _ k = None"

fun is_Download :: "event \<Rightarrow> bool" where
  "is_Download (Download _ _ _) = True"
| "is_Download _ = False"

text \<open>
  A file system that holds the TLS material and nothing else, the world that the startup
  leaves from it, and a request to POST /predict with a given form.
\<close>

definition stub_files :: "string \<rightharpoonup> node" where
  "stub_files = [''/app/cert/key.pem'' \<mapsto> File ''KEY'', ''/app/cert/cert.pem'' \<mapsto> File ''CERT'']"

definition stub_world :: "jsnum list \<Rightarrow> world" where
  "stub_world scores = snd (main (stub_env scores) (boot stub_files (\<lambda>_. Map.empty)))"

definition stub_request :: "(string \<rightharpoonup> string) \<Rightarrow> request" where
  "stub_request form = \<lparr>req_method = ''POST'', req_path = ''/predict'', payload = Some form\<rparr>"

section \<open>Computations that leave the server alone\<close>

text \<open>
  A computation that never calls \<open>server.start\<close> and never touches the server object,
  from whatever world it starts.
\<close>

definition no_start :: "'a io \<Rightarrow> bool" where
  "no_start m = (\<forall>w. server (snd (m w)) = server w \<and>
                   (\<exists>evs. trace (snd (m w)) = trace w @ evs \<and> ServerStart \<notin> set evs))"

section \<open>Facts about the errors and the classifier\<close>

lemma InputError_statusCode: "instanceof_InputError e \<Longrightarrow> statusCode e = Some 400"
  by (cases e) simp_all














lemmas io_defs = io_catch_def io_bind_def io_call_def io_of_def io_return_def io_throw_def
  io_gets_def io_draw_def io_update_def io_modify_def

lemma io_bind_return: "io_bind m io_return = m"
  by (rule ext) (simp add: io_bind_def io_return_def split: prod.splits sum.splits)

lemma io_bind_Inr:
  assumes "fst (io_bind m f w) = Inr y"
  shows "\<exists>x. fst (m w) = Inr x \<and> fst (f x (snd (m w))) = Inr y"
  using assms by (cases "m w") (auto simp add: io_bind_def split: sum.splits)

lemma io_forEach_Inr:
  assumes "fst (io_forEach xs f w) = Inr u" and "x \<in> set xs"
  shows "\<exists>w'. fst (f x w') = Inr ()"
  using assms
proof (induction xs arbitrary: w)
  case Nil
  then show ?case by simp
next
  case (Cons a xs)
  from Cons.prems(1) obtain v where a: "fst (f a w) = Inr v"
      and rest: "fst (io_forEach xs f (snd (f a w))) = Inr u"
    by (auto dest: io_bind_Inr)
  show ?case
  proof (cases "x = a")
    case True
    with a show ?thesis by auto
  next
    case False
    with Cons.prems(2) have "x \<in> set xs" by simp
    with Cons.IH rest show ?thesis by blast
  qed
qed

text \<open>
  What \<open>predictClassification\<close> returns or throws, in terms of the preprocessing, the
  model's answer, the scores read from it and the spread into \<open>Math.max\<close>.
\<close>

lemma predictClassification_result:
  "fst (predictClassification e model img w) =
     (case preprocess e img of
        Inl _ \<Rightarrow> Inl (InputError ''Terjadi kesalahan dalam melakukan prediksi'')
      | Inr t \<Rightarrow>
          (case model_predict model t of
             Inl _ \<Rightarrow> Inl (InputError ''Terjadi kesalahan dalam melakukan prediksi'')
           | Inr p \<Rightarrow>
               (case tensor_data e p of
                  Inl _ \<Rightarrow> Inl (InputError ''Terjadi kesalahan dalam melakukan prediksi'')
                | Inr score \<Rightarrow>
                    (case Math_max_spread (spread_limit e) score of
                       Inl _ \<Rightarrow> Inl (InputError ''Terjadi kesalahan dalam melakukan prediksi'')
                     | Inr maxScore \<Rightarrow>
                         Inr (if js_le (js_mul (rnd e) maxScore (Fin 100)) (Fin 50)
                              then \<lparr>label = ''Non-cancer'',
                                    suggestion = ''Penyakit kanker tidak terdeteksi.''\<rparr>
                              else \<lparr>label = ''Cancer'',
                                    suggestion = ''Segera periksa ke dokter!''\<rparr>)))))"
  by (simp add: predictClassification_def preprocess_def and_then_def call_model_predict_def
      model_predict_def io_catch_def io_bind_def io_call_def io_of_def io_return_def io_throw_def
      Let_def split: sum.splits option.splits)

text \<open>More scores than the engine accepts as arguments: the RangeError ends in the catch block.\<close>

lemma predictClassification_spread_fails:
  assumes "preprocess e img = Inr t" and "model_predict model t = Inr p"
    and "tensor_data e p = Inr score" and "spread_limit e < length score"
  shows "fst (predictClassification e model img w) =
           Inl (InputError ''Terjadi kesalahan dalam melakukan prediksi'')"
  using assms by (simp add: predictClassification_result Math_max_spread_def)

text \<open>It touches nothing but the record of calls.\<close>

lemma predictClassification_world:
  "files (snd (predictClassification e model img w)) = files w"
  "firestore (snd (predictClassification e model img w)) = firestore w"
  "drawn (snd (predictClassification e model img w)) = drawn w"
  "server (snd (predictClassification e model img w)) = server w"
  by (auto simp add: predictClassification_def call_model_predict_def io_defs Let_def
      split: sum.splits option.splits)

text \<open>
  The calls after a successful preprocessing: the four of the preprocessing for every
  handle, then the model's when the handle is defined, and none when it is not.
\<close>

lemma predictClassification_events:
  assumes "preprocess e img = Inr t"
  shows "take 4 (events_since w (snd (predictClassification e model img w))) =
           [DecodeJpeg, ResizeNearestNeighbor 224 224, ExpandDims 0, ToFloat]"
    and "take 5 (events_since w (snd (predictClassification e (Some m) img w))) =
           [DecodeJpeg, ResizeNearestNeighbor 224 224, ExpandDims 0, ToFloat, ModelPredict]"
    and "events_since w (snd (predictClassification e None img w)) =
           [DecodeJpeg, ResizeNearestNeighbor 224 224, ExpandDims 0, ToFloat]"
  using assms
  by (auto simp add: predictClassification_def preprocess_def and_then_def events_since_def
      call_model_predict_def io_defs Let_def split: sum.splits option.splits)

lemma predictClassification_decode_fails:
  assumes "decodeJpeg e img = Inl cause"
  shows "predictClassification e model img w =
     (Inl (InputError ''Terjadi kesalahan dalam melakukan prediksi''),
      w\<lparr>trace := trace w @ [DecodeJpeg]\<rparr>)"
  using assms by (simp add: predictClassification_def io_defs)

section \<open>Facts about the handler and the dispatch\<close>


lemma predict_decode_fails:
  assumes "payload request = Some form" "decodeJpeg e (form ''image'') = Inl cause"
  shows "predict e request w =
     (Inl (InputError ''Terjadi kesalahan dalam melakukan prediksi''),
      w\<lparr>trace := trace w @ [DecodeJpeg]\<rparr>)"
  using assms by (simp add: predict_def predictClassification_decode_fails io_defs)

lemma predict_success:
  assumes "payload request = Some form"
    and "fst (predictClassification e (app_model (server w)) (form ''image'') w) = Inr c"
    and "firestore_set e ''predictions'' (randomUUID e (drawn w))
           (JObject [(''id'', JString (randomUUID e (drawn w))),
                     (''result'', JString (label c)),
                     (''suggestion'', JString (suggestion c)),
                     (''createdAt'', JString (toISOString e (Suc (drawn w))))]) = None"
  shows "fst (predict e request w) =
           Inr \<lparr>code = 201,
                 body = JObject
                   [(''status'', JString ''success''),
                    (''message'', JString ''Model is predicted successfully''),
                    (''data'', JObject [(''id'', JString (randomUUID e (drawn w))),
                                        (''result'', JString (label c)),
                                        (''suggestion'', JString (suggestion c)),
                                        (''createdAt'', JString (toISOString e (Suc (drawn w))))])]\<rparr>"
    and "firestore (snd (predict e request w)) =
           (firestore w)(''predictions'' := (firestore w ''predictions'')
              (randomUUID e (drawn w) \<mapsto>
                 JObject [(''id'', JString (randomUUID e (drawn w))),
                          (''result'', JString (label c)),
                          (''suggestion'', JString (suggestion c)),
                          (''createdAt'', JString (toISOString e (Suc (drawn w))))]))"
proof -
  obtain r w1 where pc: "predictClassification e (app_model (server w)) (form ''image'') w = (r, w1)"
    by (cases "predictClassification e (app_model (server w)) (form ''image'') w")
  with assms(2) have r: "r = Inr c" by simp
  from pc predictClassification_world [of e "app_model (server w)" "form ''image''" w]
  have w1: "drawn w1 = drawn w" "firestore w1 = firestore w" by simp_all
  from pc r w1 assms(1,3)
  show "fst (predict e request w) =
           Inr \<lparr>code = 201,
                 body = JObject
                   [(''status'', JString ''success''),
                    (''message'', JString ''Model is predicted successfully''),
                    (''data'', JObject [(''id'', JString (randomUUID e (drawn w))),
                                        (''result'', JString (label c)),
                                        (''suggestion'', JString (suggestion c)),
                                        (''createdAt'', JString (toISOString e (Suc (drawn w))))])]\<rparr>"
    by (simp add: predict_def storeData_def h_response_def io_defs Let_def)
  from pc r w1 assms(1,3)
  show "firestore (snd (predict e request w)) =
           (firestore w)(''predictions'' := (firestore w ''predictions'')
              (randomUUID e (drawn w) \<mapsto>
                 JObject [(''id'', JString (randomUUID e (drawn w))),
                          (''result'', JString (label c)),
                          (''suggestion'', JString (suggestion c)),
                          (''createdAt'', JString (toISOString e (Suc (drawn w))))]))"
    by (simp add: predict_def storeData_def h_response_def io_defs Let_def)
qed

lemma lookup_predict:
  "lookup_route routes ''POST'' ''/predict'' = Some (hd routes)" "handler (hd routes) = Predict"
  by (simp_all add: lookup_route_def routes_def)

lemma handleRequest_predict:
  assumes "listening (server w)" "route_table (server w) = routes"
    and "req_method request = ''POST''" "req_path request = ''/predict''"
  shows "fst (handleRequest e request w) =
     Some (case fst (predict e request w) of
             Inl err \<Rightarrow> onPreResponse (Inl (err, 500))
           | Inr response \<Rightarrow> onPreResponse (Inr response))"
  using assms
  by (simp add: handleRequest_def lookup_predict split: prod.splits sum.splits)

lemma handleRequest_predict_world:
  assumes "listening (server w)" "route_table (server w) = routes"
    and "req_method request = ''POST''" "req_path request = ''/predict''"
  shows "snd (handleRequest e request w) = snd (predict e request w)"
  using assms
  by (simp add: handleRequest_def lookup_predict split: prod.splits sum.splits)

section \<open>Facts about fetching and loading the model\<close>

lemma downloadFile_run:
  "downloadFile e b src dest w =
     (case bucket_file e b src of
        Inl err \<Rightarrow> (Inl err, w\<lparr>trace := trace w @ [Download b src dest]\<rparr>)
      | Inr c \<Rightarrow>
          (Inr (), w\<lparr>files := (files w)(dest \<mapsto> File c),
                     trace := trace w @ [Download b src dest,
                                         ConsoleLog (''Downloaded '' @ src @ '' to '' @ dest)]\<rparr>))"
  by (simp add: downloadFile_def download_def console_log_def io_defs Let_def split: sum.splits)

text \<open>One download, seen from outside: the server is untouched and the calls are its own.\<close>

lemma downloadFile_effect:
  "server (snd (downloadFile e b src dest w)) = server w"
  "\<exists>evs. trace (snd (downloadFile e b src dest w)) = trace w @ Download b src dest # evs
         \<and> (\<forall>ev \<in> set evs. \<exists>s. ev = ConsoleLog s)"
  "fst (downloadFile e b src dest w) = Inr u \<Longrightarrow> \<exists>c. bucket_file e b src = Inr c"
  by (auto simp add: downloadFile_run split: sum.splits)

text \<open>The calls of \<open>loadModel\<close> when every transfer succeeds, whatever the files were.\<close>

lemma loadModel_run:
  assumes "bucket_file e BUCKET_NAME ''model.json'' = Inr c0"
    "bucket_file e BUCKET_NAME ''group1-shard1of4.bin'' = Inr c1"
    "bucket_file e BUCKET_NAME ''group1-shard2of4.bin'' = Inr c2"
    "bucket_file e BUCKET_NAME ''group1-shard3of4.bin'' = Inr c3"
    "bucket_file e BUCKET_NAME ''group1-shard4of4.bin'' = Inr c4"
  shows "events_since w (snd (loadModel e w)) =
     (let d = path_join (dirname e) ''model'' in
      ExistsSync d # (if files w d = None then [MkdirSync d] else []) @
      concat (map (\<lambda>f. [Download BUCKET_NAME f (path_join d f),
                         ConsoleLog (''Downloaded '' @ f @ '' to '' @ path_join d f)])
                (MODEL_PATH # modelWeights)) @
      [LoadGraphModel (''file://'' @ path_join d ''model.json'')])"
  using assms unfolding loadModel_def io_bind_return
  by (simp add: Let_def downloadFile_run existsSync_def mkdirSync_def
        tf_loadGraphModel_def MODEL_PATH_def modelWeights_def events_since_def
        io_bind_def io_return_def)

lemma loadModel_load:
  assumes "bucket_file e BUCKET_NAME ''model.json'' = Inr c0"
    "bucket_file e BUCKET_NAME ''group1-shard1of4.bin'' = Inr c1"
    "bucket_file e BUCKET_NAME ''group1-shard2of4.bin'' = Inr c2"
    "bucket_file e BUCKET_NAME ''group1-shard3of4.bin'' = Inr c3"
    "bucket_file e BUCKET_NAME ''group1-shard4of4.bin'' = Inr c4"
  shows "fst (loadModel e w) =
           loadGraphModel e (files (snd (loadModel e w)))
             (''file://'' @ path_join (path_join (dirname e) ''model'') ''model.json'')"
  using assms unfolding loadModel_def io_bind_return
  by (simp add: Let_def downloadFile_run existsSync_def mkdirSync_def
        tf_loadGraphModel_def MODEL_PATH_def modelWeights_def
        io_bind_def io_return_def)

text \<open>Each local copy then holds what the bucket sent, whatever was there before.\<close>

lemma loadModel_files:
  assumes "bucket_file e BUCKET_NAME ''model.json'' = Inr c0"
    "bucket_file e BUCKET_NAME ''group1-shard1of4.bin'' = Inr c1"
    "bucket_file e BUCKET_NAME ''group1-shard2of4.bin'' = Inr c2"
    "bucket_file e BUCKET_NAME ''group1-shard3of4.bin'' = Inr c3"
    "bucket_file e BUCKET_NAME ''group1-shard4of4.bin'' = Inr c4"
  shows "map (files (snd (loadModel e w)))
           (map (path_join (path_join (dirname e) ''model'')) (MODEL_PATH # modelWeights)) =
         [Some (File c0), Some (File c1), Some (File c2), Some (File c3), Some (File c4)]"
  using assms unfolding loadModel_def io_bind_return
  by (simp add: Let_def downloadFile_run existsSync_def mkdirSync_def
        tf_loadGraphModel_def MODEL_PATH_def modelWeights_def path_join_def
        io_bind_def io_return_def)

lemma no_start_return: "no_start (io_return x)"
  by (simp add: no_start_def io_return_def)

lemma no_start_bind:
  assumes "no_start m" and "\<And>x. no_start (f x)"
  shows "no_start (io_bind m f)"
  unfolding no_start_def
proof (intro allI)
  fix w
  obtain r w1 where m: "m w = (r, w1)" by (cases "m w")
  from assms(1) m obtain evs1 where 1: "server w1 = server w" "trace w1 = trace w @ evs1"
      "ServerStart \<notin> set evs1"
    unfolding no_start_def by (metis snd_conv)
  show "server (snd (io_bind m f w)) = server w \<and>
        (\<exists>evs. trace (snd (io_bind m f w)) = trace w @ evs \<and> ServerStart \<notin> set evs)"
  proof (cases r)
    case (Inl err)
    with m 1 show ?thesis by (simp add: io_bind_def)
  next
    case (Inr x)
    from assms(2) [of x] obtain evs2 where 2: "server (snd (f x w1)) = server w1"
        "trace (snd (f x w1)) = trace w1 @ evs2" "ServerStart \<notin> set evs2"
      unfolding no_start_def by blast
    with Inr m 1 show ?thesis by (simp add: io_bind_def)
  qed
qed

lemma no_start_forEach:
  assumes "\<And>x. no_start (f x)"
  shows "no_start (io_forEach xs f)"
  by (induction xs) (simp_all add: no_start_return no_start_bind assms)

lemma no_start_downloadFile: "no_start (downloadFile e b src dest)"
  by (simp add: no_start_def downloadFile_run split: sum.splits)

lemma no_start_loadModel: "no_start (loadModel e)"
  unfolding loadModel_def Let_def
  by (intro no_start_bind no_start_forEach no_start_downloadFile no_start_return)
     (simp_all add: no_start_def existsSync_def mkdirSync_def tf_loadGraphModel_def
        io_return_def Let_def)

text \<open>A model is returned only after all five transfers and the load have succeeded.\<close>

lemma loadModel_transfers:
  assumes "fst (loadModel e w) = Inr m"
  shows "\<forall>f \<in> set (MODEL_PATH # modelWeights). \<exists>c. bucket_file e BUCKET_NAME f = Inr c"
proof -
  let ?d = "path_join (dirname e) ''model''"
  from assms obtain w1 u1 where
      "fst (io_bind (downloadFile e BUCKET_NAME MODEL_PATH (path_join ?d ''model.json''))
          (\<lambda>_. io_bind (io_forEach modelWeights
                 (\<lambda>weight. downloadFile e BUCKET_NAME weight (path_join ?d weight)))
              (\<lambda>_. io_bind (tf_loadGraphModel e (''file://'' @ path_join ?d ''model.json''))
                (\<lambda>model. io_return model))) w1) = Inr m"
    unfolding loadModel_def Let_def by (blast dest: io_bind_Inr)
  then obtain w2 where first: "fst (downloadFile e BUCKET_NAME MODEL_PATH
        (path_join ?d ''model.json'') w1) = Inr ()"
    and "fst (io_bind (io_forEach modelWeights
                 (\<lambda>weight. downloadFile e BUCKET_NAME weight (path_join ?d weight)))
              (\<lambda>_. io_bind (tf_loadGraphModel e (''file://'' @ path_join ?d ''model.json''))
                (\<lambda>model. io_return model)) w2) = Inr m"
    by (auto dest: io_bind_Inr)
  then obtain u where each: "fst (io_forEach modelWeights
        (\<lambda>weight. downloadFile e BUCKET_NAME weight (path_join ?d weight)) w2) = Inr u"
    by (auto dest: io_bind_Inr)
  have "\<exists>c. bucket_file e BUCKET_NAME f = Inr c" if "f \<in> set modelWeights" for f
    using io_forEach_Inr [OF each that] downloadFile_effect(3) by blast
  moreover have "\<exists>c. bucket_file e BUCKET_NAME MODEL_PATH = Inr c"
    using first downloadFile_effect(3) by blast
  ultimately show ?thesis by simp
qed

lemma loadModel_success:
  assumes "loadModel e w = (Inr m, w')"
  shows "\<forall>f \<in> set (MODEL_PATH # modelWeights). \<exists>c. bucket_file e BUCKET_NAME f = Inr c"
    and "loadGraphModel e (files w')
           (''file://'' @ path_join (path_join (dirname e) ''model'') ''model.json'') = Inr m"
    and "LoadGraphModel (''file://'' @ path_join (path_join (dirname e) ''model'') ''model.json'')
           \<in> set (events_since w w')"
proof -
  from assms have ok: "fst (loadModel e w) = Inr m" by simp
  then show t: "\<forall>f \<in> set (MODEL_PATH # modelWeights). \<exists>c. bucket_file e BUCKET_NAME f = Inr c"
    by (rule loadModel_transfers)
  then obtain c0 c1 c2 c3 c4 where c:
    "bucket_file e BUCKET_NAME ''model.json'' = Inr c0"
    "bucket_file e BUCKET_NAME ''group1-shard1of4.bin'' = Inr c1"
    "bucket_file e BUCKET_NAME ''group1-shard2of4.bin'' = Inr c2"
    "bucket_file e BUCKET_NAME ''group1-shard3of4.bin'' = Inr c3"
    "bucket_file e BUCKET_NAME ''group1-shard4of4.bin'' = Inr c4"
    by (auto simp add: MODEL_PATH_def modelWeights_def)
  from loadModel_load [OF c, of w] assms
  show "loadGraphModel e (files w')
           (''file://'' @ path_join (path_join (dirname e) ''model'') ''model.json'') = Inr m"
    by simp
  from loadModel_run [OF c, of w] assms
  show "LoadGraphModel (''file://'' @ path_join (path_join (dirname e) ''model'') ''model.json'')
           \<in> set (events_since w w')"
    by (simp add: Let_def)
qed

section \<open>The small environment, evaluated\<close>

lemma stub_env_sel:
  "dirname (stub_env s) = ''/app''" "env_PORT (stub_env s) = None"
  "server_start (stub_env s) = None" "rnd (stub_env s) = Fin"
  "spread_limit (stub_env s) = 125000"
  "firestore_set (stub_env s) = (\<lambda>_ _ _. None)"
  "tensor_data (stub_env s) = (\<lambda>t. Inr (vals t))"
  by (simp_all add: stub_env_def)

lemma stub_bucket:
  "bucket_file (stub_env s) BUCKET_NAME ''model.json'' = Inr ''model.json''"
  "bucket_file (stub_env s) BUCKET_NAME ''group1-shard1of4.bin'' = Inr ''group1-shard1of4.bin''"
  "bucket_file (stub_env s) BUCKET_NAME ''group1-shard2of4.bin'' = Inr ''group1-shard2of4.bin''"
  "bucket_file (stub_env s) BUCKET_NAME ''group1-shard3of4.bin'' = Inr ''group1-shard3of4.bin''"
  "bucket_file (stub_env s) BUCKET_NAME ''group1-shard4of4.bin'' = Inr ''group1-shard4of4.bin''"
  by (simp_all add: stub_env_def MODEL_PATH_def modelWeights_def)

lemma stub_preprocess:
  "preprocess (stub_env scores) (Some ''JFIF'') =
     Inr \<lparr>shape = [1, 224, 224, 3], vals = [Fin 10, Fin 20, Fin 30]\<rparr>"
  by (simp add: preprocess_def and_then_def stub_env_def)

lemma stub_classify:
  assumes "length s \<le> 125000"
  shows "fst (predictClassification (stub_env s) (Some (stub_model s)) (Some ''JFIF'') w) =
     Inr (if js_le (js_mul Fin (Math_max s) (Fin 100)) (Fin 50)
          then \<lparr>label = ''Non-cancer'', suggestion = ''Penyakit kanker tidak terdeteksi.''\<rparr>
          else \<lparr>label = ''Cancer'', suggestion = ''Segera periksa ke dokter!''\<rparr>)"
  using assms
  by (simp add: predictClassification_result stub_preprocess model_predict_def stub_model_def
      Math_max_spread_def stub_env_sel)

text \<open>A vector of 130000 scores is more than this engine accepts: no label, the InputError.\<close>

lemma stub_long_vector:
  "fst (predictClassification (stub_env (replicate 130000 (Fin (1/4))))
          (Some (stub_model (replicate 130000 (Fin (1/4))))) (Some ''JFIF'') w) =
     Inl (InputError ''Terjadi kesalahan dalam melakukan prediksi'')"
  by (rule predictClassification_spread_fails
        [where t = "\<lparr>shape = [1, 224, 224, 3], vals = [Fin 10, Fin 20, Fin 30]\<rparr>"
         and p = "\<lparr>shape = [1, 130000], vals = replicate 130000 (Fin (1/4))\<rparr>"
         and score = "replicate 130000 (Fin (1/4))"])
     (simp_all add: stub_preprocess model_predict_def stub_model_def stub_env_sel)

lemma stub_decode_fails:
  "decodeJpeg (stub_env s) None = Inl (OtherError ''contents must be a Uint8Array'')"
  "decodeJpeg (stub_env s) (Some ''GIF89a'') =
     Inl (OtherError ''Expected image (JPEG), but got unknown format'')"
  by (simp_all add: stub_env_def)

lemma stub_loadModel:
  assumes "files w ''/app/model'' = None"
  shows "loadModel (stub_env s) w =
    (Inr (stub_model s),
     w\<lparr>files := (files w)
          (''/app/model'' \<mapsto> Dir,
           ''/app/model/model.json'' \<mapsto> File ''model.json'',
           ''/app/model/group1-shard1of4.bin'' \<mapsto> File ''group1-shard1of4.bin'',
           ''/app/model/group1-shard2of4.bin'' \<mapsto> File ''group1-shard2of4.bin'',
           ''/app/model/group1-shard3of4.bin'' \<mapsto> File ''group1-shard3of4.bin'',
           ''/app/model/group1-shard4of4.bin'' \<mapsto> File ''group1-shard4of4.bin''),
        trace := trace w @
          [ExistsSync ''/app/model'', MkdirSync ''/app/model'',
           Download ''model_mlgc_yasin'' ''model.json'' ''/app/model/model.json'',
           ConsoleLog ''Downloaded model.json to /app/model/model.json'',
           Download ''model_mlgc_yasin'' ''group1-shard1of4.bin'' ''/app/model/group1-shard1of4.bin'',
           ConsoleLog ''Downloaded group1-shard1of4.bin to /app/model/group1-shard1of4.bin'',
           Download ''model_mlgc_yasin'' ''group1-shard2of4.bin'' ''/app/model/group1-shard2of4.bin'',
           ConsoleLog ''Downloaded group1-shard2of4.bin to /app/model/group1-shard2of4.bin'',
           Download ''model_mlgc_yasin'' ''group1-shard3of4.bin'' ''/app/model/group1-shard3of4.bin'',
           ConsoleLog ''Downloaded group1-shard3of4.bin to /app/model/group1-shard3of4.bin'',
           Download ''model_mlgc_yasin'' ''group1-shard4of4.bin'' ''/app/model/group1-shard4of4.bin'',
           ConsoleLog ''Downloaded group1-shard4of4.bin to /app/model/group1-shard4of4.bin'',
           LoadGraphModel ''file:///app/model/model.json'']\<rparr>)"
  using assms
  by (simp add: loadModel_def stub_env_def Let_def path_join_def existsSync_def mkdirSync_def
      downloadFile_def download_def console_log_def tf_loadGraphModel_def modelWeights_def
      BUCKET_NAME_def MODEL_PATH_def io_defs)

lemma stub_main:
  "main (stub_env s) (boot stub_files (\<lambda>_. Map.empty)) =
    (Inr (),
     \<lparr>files = stub_files
          (''/app/model'' \<mapsto> Dir,
           ''/app/model/model.json'' \<mapsto> File ''model.json'',
           ''/app/model/group1-shard1of4.bin'' \<mapsto> File ''group1-shard1of4.bin'',
           ''/app/model/group1-shard2of4.bin'' \<mapsto> File ''group1-shard2of4.bin'',
           ''/app/model/group1-shard3of4.bin'' \<mapsto> File ''group1-shard3of4.bin'',
           ''/app/model/group1-shard4of4.bin'' \<mapsto> File ''group1-shard4of4.bin''),
      firestore = (\<lambda>_. Map.empty), drawn = 0,
      server = \<lparr>port = ''3000'', app_model = Some (stub_model s), route_table = routes,
                listening = True\<rparr>,
      trace =
          [ReadFileSync ''/app/cert/key.pem'', ReadFileSync ''/app/cert/cert.pem'', HapiServer,
           ExistsSync ''/app/model'', MkdirSync ''/app/model'',
           Download ''model_mlgc_yasin'' ''model.json'' ''/app/model/model.json'',
           ConsoleLog ''Downloaded model.json to /app/model/model.json'',
           Download ''model_mlgc_yasin'' ''group1-shard1of4.bin'' ''/app/model/group1-shard1of4.bin'',
           ConsoleLog ''Downloaded group1-shard1of4.bin to /app/model/group1-shard1of4.bin'',
           Download ''model_mlgc_yasin'' ''group1-shard2of4.bin'' ''/app/model/group1-shard2of4.bin'',
           ConsoleLog ''Downloaded group1-shard2of4.bin to /app/model/group1-shard2of4.bin'',
           Download ''model_mlgc_yasin'' ''group1-shard3of4.bin'' ''/app/model/group1-shard3of4.bin'',
           ConsoleLog ''Downloaded group1-shard3of4.bin to /app/model/group1-shard3of4.bin'',
           Download ''model_mlgc_yasin'' ''group1-shard4of4.bin'' ''/app/model/group1-shard4of4.bin'',
           ConsoleLog ''Downloaded group1-shard4of4.bin to /app/model/group1-shard4of4.bin'',
           LoadGraphModel ''file:///app/model/model.json'',
           ServerRoute, ServerExt, ServerStart,
           ConsoleLog ''Server start at: https://0.0.0.0:3000'']\<rparr>)"
  by (simp add: main_def io_bind_def readFileSync_def boot_def stub_files_def path_join_def Let_def
      stub_loadModel stub_env_sel Hapi_server_def io_modify_def io_update_def server_route_def
      server_ext_def server_start_call_def console_log_def io_call_def io_gets_def)

lemma stub_world_facts:
  "listening (server (stub_world s))" "route_table (server (stub_world s)) = routes"
  "app_model (server (stub_world s)) = Some (stub_model s)"
  "drawn (stub_world s) = 0" "firestore (stub_world s) = (\<lambda>_. Map.empty)"
  by (simp_all add: stub_world_def stub_main)

lemma stub_world_files:
  "files (stub_world s) = stub_files
          (''/app/model'' \<mapsto> Dir,
           ''/app/model/model.json'' \<mapsto> File ''model.json'',
           ''/app/model/group1-shard1of4.bin'' \<mapsto> File ''group1-shard1of4.bin'',
           ''/app/model/group1-shard2of4.bin'' \<mapsto> File ''group1-shard2of4.bin'',
           ''/app/model/group1-shard3of4.bin'' \<mapsto> File ''group1-shard3of4.bin'',
           ''/app/model/group1-shard4of4.bin'' \<mapsto> File ''group1-shard4of4.bin'')"
  by (simp add: stub_world_def stub_main)

section \<open>The decision rule\<close>



section \<open>Preprocessing\<close>

text \<open>
  C4. The tensor handed to the model is the one that the four steps of the specification
  produce, in their order: decode as JPEG, resize to 224 by 224 with nearest-neighbour
  interpolation, add a leading batch dimension, convert to floating point. These are the
  first four calls the classifier makes, whatever the handle; with a defined handle the
  fifth call is the model's, and the result depends on the model only through its answer
  on that tensor; with an undefined handle the four calls are the only ones.
\<close>

theorem C4_preprocessing_steps:
  assumes "preprocess e img = Inr t"
  shows "take 4 (events_since w (snd (predictClassification e model img w))) =
           [DecodeJpeg, ResizeNearestNeighbor 224 224, ExpandDims 0, ToFloat]
       \<and> take 5 (events_since w (snd (predictClassification e (Some m) img w))) =
           [DecodeJpeg, ResizeNearestNeighbor 224 224, ExpandDims 0, ToFloat, ModelPredict]
       \<and> events_since w (snd (predictClassification e None img w)) =
           [DecodeJpeg, ResizeNearestNeighbor 224 224, ExpandDims 0, ToFloat]
       \<and> fst (predictClassification e (Some m) img w) =
          (case m t of
             Inl _ \<Rightarrow> Inl (InputError ''Terjadi kesalahan dalam melakukan prediksi'')
           | Inr p \<Rightarrow>
               (case tensor_data e p of
                  Inl _ \<Rightarrow> Inl (InputError ''Terjadi kesalahan dalam melakukan prediksi'')
                | Inr score \<Rightarrow>
                    (case Math_max_spread (spread_limit e) score of
                       Inl _ \<Rightarrow> Inl (InputError ''Terjadi kesalahan dalam melakukan prediksi'')
                     | Inr maxScore \<Rightarrow>
                         Inr (if js_le (js_mul (rnd e) maxScore (Fin 100)) (Fin 50)
                              then \<lparr>label = ''Non-cancer'',
                                    suggestion = ''Penyakit kanker tidak terdeteksi.''\<rparr>
                              else \<lparr>label = ''Cancer'',
                                    suggestion = ''Segera periksa ke dokter!''\<rparr>))))"
  using assms
  by (simp add: predictClassification_events predictClassification_result model_predict_def)

theorem C4_preprocessing_steps_witness:
  "preprocess (stub_env [Fin (9/10), Fin (1/10)]) (Some ''JFIF'') =
     Inr \<lparr>shape = [1, 224, 224, 3], vals = [Fin 10, Fin 20, Fin 30]\<rparr>
   \<and> take 5 (events_since (stub_world [Fin (9/10), Fin (1/10)])
        (snd (predictClassification (stub_env [Fin (9/10), Fin (1/10)])
               (Some (stub_model [Fin (9/10), Fin (1/10)])) (Some ''JFIF'')
               (stub_world [Fin (9/10), Fin (1/10)])))) =
       [DecodeJpeg, ResizeNearestNeighbor 224 224, ExpandDims 0, ToFloat, ModelPredict]
   \<and> events_since (stub_world [Fin (9/10), Fin (1/10)])
        (snd (predictClassification (stub_env [Fin (9/10), Fin (1/10)]) None (Some ''JFIF'')
               (stub_world [Fin (9/10), Fin (1/10)]))) =
       [DecodeJpeg, ResizeNearestNeighbor 224 224, ExpandDims 0, ToFloat]
   \<and> fst (predictClassification (stub_env [Fin (9/10), Fin (1/10)])
               (Some (stub_model [Fin (9/10), Fin (1/10)])) (Some ''JFIF'')
               (stub_world [Fin (9/10), Fin (1/10)])) =
       Inr \<lparr>label = ''Cancer'', suggestion = ''Segera periksa ke dokter!''\<rparr>"
  using C4_preprocessing_steps [where e = "stub_env [Fin (9/10), Fin (1/10)]"
      and img = "Some ''JFIF''" and w = "stub_world [Fin (9/10), Fin (1/10)]"
      and m = "stub_model [Fin (9/10), Fin (1/10)]"
      and t = "\<lparr>shape = [1, 224, 224, 3], vals = [Fin 10, Fin 20, Fin 30]\<rparr>"]
  by (simp add: stub_preprocess stub_model_def stub_env_sel Math_max_spread_def Math_max_def)

section \<open>Failures of the classification step\<close>



text \<open>
  C10. For every model handle (also \<open>undefined\<close>) and every image,
  \<open>predictClassification\<close> returns a label with its suggestion or throws, and an error it
  throws is an InputError with status code 400 and the message
  "Terjadi kesalahan dalam melakukan prediksi".
\<close>

theorem C10_only_InputError:
  "((\<exists>c. fst (predictClassification e model img w) = Inr c) \<or>
    fst (predictClassification e model img w) =
      Inl (InputError ''Terjadi kesalahan dalam melakukan prediksi''))
   \<and> (\<forall>err. fst (predictClassification e model img w) = Inl err \<longrightarrow>
        instanceof_InputError err \<and> name err = ''InputError'' \<and> statusCode err = Some 400
        \<and> message err = ''Terjadi kesalahan dalam melakukan prediksi'')"
  by (auto simp add: predictClassification_result split: sum.splits)

theorem C10_only_InputError_witness:
  "fst (predictClassification (stub_env [Fin (9/10)]) None (Some ''JFIF'') (stub_world [Fin (9/10)])) =
     Inl (InputError ''Terjadi kesalahan dalam melakukan prediksi'')
   \<and> name (InputError ''Terjadi kesalahan dalam melakukan prediksi'') = ''InputError''
   \<and> statusCode (InputError ''Terjadi kesalahan dalam melakukan prediksi'') = Some 400"
proof -
  let ?r = "fst (predictClassification (stub_env [Fin (9/10)]) None (Some ''JFIF'')
                  (stub_world [Fin (9/10)]))"
  have "\<not> (\<exists>c. ?r = Inr c)"
    by (simp add: predictClassification_result stub_preprocess model_predict_def)
  with C10_only_InputError [of "stub_env [Fin (9/10)]" None "Some ''JFIF''" "stub_world [Fin (9/10)]"]
  have r: "?r = Inl (InputError ''Terjadi kesalahan dalam melakukan prediksi'')"
    by blast
  with C10_only_InputError [of "stub_env [Fin (9/10)]" None "Some ''JFIF''" "stub_world [Fin (9/10)]"]
  show ?thesis by simp
qed

section \<open>A successful prediction\<close>

text \<open>
  C7. When classification and persistence succeed, POST /predict answers 201 with
  status "success", the message "Model is predicted successfully" and, as data, the
  outcome just assembled: id, result, suggestion, createdAt.
\<close>

theorem C7_success_response:
  assumes "listening (server w)" "route_table (server w) = routes"
    and "req_method request = ''POST''" "req_path request = ''/predict''"
    and "payload request = Some form"
    and "fst (predictClassification e (app_model (server w)) (form ''image'') w) = Inr c"
    and "firestore_set e ''predictions'' (randomUUID e (drawn w))
           (JObject [(''id'', JString (randomUUID e (drawn w))),
                     (''result'', JString (label c)),
                     (''suggestion'', JString (suggestion c)),
                     (''createdAt'', JString (toISOString e (Suc (drawn w))))]) = None"
  shows "fst (handleRequest e request w) =
           Some \<lparr>code = 201,
                 body = JObject
                   [(''status'', JString ''success''),
                    (''message'', JString ''Model is predicted successfully''),
                    (''data'', JObject [(''id'', JString (randomUUID e (drawn w))),
                                        (''result'', JString (label c)),
                                        (''suggestion'', JString (suggestion c)),
                                        (''createdAt'', JString (toISOString e (Suc (drawn w))))])]\<rparr>"
  using assms by (simp add: handleRequest_predict predict_success(1))

theorem C7_success_response_witness:
  "fst (predictClassification (stub_env [Fin (9/10)]) (Some (stub_model [Fin (9/10)]))
          (Some ''JFIF'') (stub_world [Fin (9/10)])) =
      Inr \<lparr>label = ''Cancer'', suggestion = ''Segera periksa ke dokter!''\<rparr>
   \<and> fst (handleRequest (stub_env [Fin (9/10)]) (stub_request [''image'' \<mapsto> ''JFIF''])
           (stub_world [Fin (9/10)])) =
       Some \<lparr>code = 201,
             body = JObject
               [(''status'', JString ''success''),
                (''message'', JString ''Model is predicted successfully''),
                (''data'', JObject
                   [(''id'', JString ''3f2b8c1e-5d4a-4c7b-9e6f-0a1b2c3d4e5f''),
                    (''result'', JString ''Cancer''),
                    (''suggestion'', JString ''Segera periksa ke dokter!''),
                    (''createdAt'', JString ''2024-01-01T00:00:00.000Z'')])]\<rparr>"
proof -
  let ?e = "stub_env [Fin (9/10)]" and ?w = "stub_world [Fin (9/10)]"
  let ?c = "\<lparr>label = ''Cancer'', suggestion = ''Segera periksa ke dokter!''\<rparr>"
  have c: "fst (predictClassification ?e (app_model (server ?w))
      ([''image'' \<mapsto> ''JFIF''] ''image'') ?w) = Inr ?c"
    by (simp add: stub_world_facts stub_classify Math_max_def)
  have s: "firestore_set ?e ''predictions'' (randomUUID ?e (drawn ?w))
           (JObject [(''id'', JString (randomUUID ?e (drawn ?w))),
                     (''result'', JString (label ?c)),
                     (''suggestion'', JString (suggestion ?c)),
                     (''createdAt'', JString (toISOString ?e (Suc (drawn ?w))))]) = None"
    by (simp add: stub_env_sel)
  have "fst (handleRequest ?e (stub_request [''image'' \<mapsto> ''JFIF'']) ?w) =
       Some \<lparr>code = 201,
             body = JObject
               [(''status'', JString ''success''),
                (''message'', JString ''Model is predicted successfully''),
                (''data'', JObject [(''id'', JString (randomUUID ?e (drawn ?w))),
                                        (''result'', JString (label ?c)),
                                        (''suggestion'', JString (suggestion ?c)),
                                        (''createdAt'', JString (toISOString ?e (Suc (drawn ?w))))])]\<rparr>"
    using C7_success_response [where e = ?e and w = ?w and c = ?c
        and request = "stub_request [''image'' \<mapsto> ''JFIF'']"
        and form = "[''image'' \<mapsto> ''JFIF'']"] c s
    by (simp add: stub_world_facts stub_request_def)
  with c show ?thesis
    by (simp add: stub_world_facts stub_env_def)
qed

text \<open>
  C9. After a successful prediction the document is stored under the key that is its own
  id field, and the stored document is the data object of the 201 response; no other
  document changes.
\<close>

theorem C9_stored_record:
  assumes "listening (server w)" "route_table (server w) = routes"
    and "req_method request = ''POST''" "req_path request = ''/predict''"
    and "payload request = Some form"
    and "fst (predictClassification e (app_model (server w)) (form ''image'') w) = Inr c"
    and "firestore_set e ''predictions'' (randomUUID e (drawn w))
           (JObject [(''id'', JString (randomUUID e (drawn w))),
                     (''result'', JString (label c)),
                     (''suggestion'', JString (suggestion c)),
                     (''createdAt'', JString (toISOString e (Suc (drawn w))))]) = None"
  shows "\<exists>key stored resp.
           fst (handleRequest e request w) = Some resp
         \<and> code resp = 201
         \<and> json_get (body resp) ''data'' = Some stored
         \<and> firestore (snd (handleRequest e request w)) =
             (firestore w)(''predictions'' := (firestore w ''predictions'')(key \<mapsto> stored))
         \<and> json_get stored ''id'' = Some (JString key)"
proof -
  let ?key = "randomUUID e (drawn w)"
  let ?stored = "JObject [(''id'', JString ?key),
                     (''result'', JString (label c)),
                     (''suggestion'', JString (suggestion c)),
                     (''createdAt'', JString (toISOString e (Suc (drawn w))))]"
  let ?resp = "\<lparr>code = 201,
                 body = JObject
                   [(''status'', JString ''success''),
                    (''message'', JString ''Model is predicted successfully''),
                    (''data'', ?stored)]\<rparr>"
  from assms have 1: "fst (handleRequest e request w) = Some ?resp"
    by (simp add: handleRequest_predict predict_success(1))
  from assms have 2: "firestore (snd (handleRequest e request w)) =
             (firestore w)(''predictions'' := (firestore w ''predictions'')(?key \<mapsto> ?stored))"
    by (simp add: handleRequest_predict_world predict_success(2))
  have 3: "json_get (body ?resp) ''data'' = Some ?stored" "json_get ?stored ''id'' = Some (JString ?key)"
    by simp_all
  from 1 2 3 show ?thesis by (intro exI [of _ ?key] exI [of _ ?stored] exI [of _ ?resp]) simp
qed

theorem C9_stored_record_witness:
  "fst (predictClassification (stub_env [Fin (1/10)]) (Some (stub_model [Fin (1/10)]))
          (Some ''JFIF'') (stub_world [Fin (1/10)])) =
      Inr \<lparr>label = ''Non-cancer'', suggestion = ''Penyakit kanker tidak terdeteksi.''\<rparr>
   \<and> (\<exists>key stored resp.
         fst (handleRequest (stub_env [Fin (1/10)]) (stub_request [''image'' \<mapsto> ''JFIF''])
           (stub_world [Fin (1/10)])) = Some resp
       \<and> code resp = 201
       \<and> json_get (body resp) ''data'' = Some stored
       \<and> firestore (snd (handleRequest (stub_env [Fin (1/10)])
             (stub_request [''image'' \<mapsto> ''JFIF'']) (stub_world [Fin (1/10)]))) =
           (\<lambda>_. Map.empty)(''predictions'' := [key \<mapsto> stored])
       \<and> json_get stored ''id'' = Some (JString key))"
proof -
  let ?e = "stub_env [Fin (1/10)]" and ?w = "stub_world [Fin (1/10)]"
  let ?c = "\<lparr>label = ''Non-cancer'', suggestion = ''Penyakit kanker tidak terdeteksi.''\<rparr>"
  have c: "fst (predictClassification ?e (app_model (server ?w))
      ([''image'' \<mapsto> ''JFIF''] ''image'') ?w) = Inr ?c"
    by (simp add: stub_world_facts stub_classify Math_max_def)
  have s: "firestore_set ?e ''predictions'' (randomUUID ?e (drawn ?w))
           (JObject [(''id'', JString (randomUUID ?e (drawn ?w))),
                     (''result'', JString (label ?c)),
                     (''suggestion'', JString (suggestion ?c)),
                     (''createdAt'', JString (toISOString ?e (Suc (drawn ?w))))]) = None"
    by (simp add: stub_env_sel)
  have "\<exists>key stored resp.
           fst (handleRequest ?e (stub_request [''image'' \<mapsto> ''JFIF'']) ?w) = Some resp
         \<and> code resp = 201
         \<and> json_get (body resp) ''data'' = Some stored
         \<and> firestore (snd (handleRequest ?e (stub_request [''image'' \<mapsto> ''JFIF'']) ?w)) =
             (firestore ?w)(''predictions'' := (firestore ?w ''predictions'')(key \<mapsto> stored))
         \<and> json_get stored ''id'' = Some (JString key)"
    using C9_stored_record [where e = ?e and w = ?w and c = ?c
        and request = "stub_request [''image'' \<mapsto> ''JFIF'']"
        and form = "[''image'' \<mapsto> ''JFIF'']"] c s
    by (simp add: stub_world_facts stub_request_def)
  with c show ?thesis
    by (simp add: stub_world_facts)
qed

section \<open>A request without an image\<close>

text \<open>
  C6, as the code has it. The handler has no check of its own for a missing or empty
  image field: the value goes to \<open>decodeJpeg\<close>, and when that throws on it the request
  ends like any other decode failure, in the catch block of \<open>predictClassification\<close>, with
  the 400 response of the fail shape. The decoder's call is the only call made.
\<close>

theorem C6_missing_image_is_decode_failure:
  assumes "listening (server w)" "route_table (server w) = routes"
    and "req_method request = ''POST''" "req_path request = ''/predict''"
    and "payload request = Some form"
    and "form ''image'' = None \<or> form ''image'' = Some []"
    and "decodeJpeg e (form ''image'') = Inl cause"
  shows "fst (handleRequest e request w) =
           Some \<lparr>code = 400,
                 body = JObject [(''status'', JString ''fail''),
                                 (''message'', JString ''Terjadi kesalahan dalam melakukan prediksi'')]\<rparr>
       \<and> events_since w (snd (handleRequest e request w)) = [DecodeJpeg]
       \<and> fst (predictClassification e (app_model (server w)) (form ''image'') w) =
           Inl (InputError ''Terjadi kesalahan dalam melakukan prediksi'')"
  using assms(1-5,7)
  by (simp add: handleRequest_predict handleRequest_predict_world predict_decode_fails
      predictClassification_decode_fails events_since_def h_response_def fail_body_def)

theorem C6_missing_image_is_decode_failure_witness:
  "decodeJpeg (stub_env [Fin (9/10)]) None = Inl (OtherError ''contents must be a Uint8Array'')
   \<and> fst (handleRequest (stub_env [Fin (9/10)]) (stub_request Map.empty) (stub_world [Fin (9/10)])) =
       Some \<lparr>code = 400,
             body = JObject [(''status'', JString ''fail''),
                             (''message'', JString ''Terjadi kesalahan dalam melakukan prediksi'')]\<rparr>
   \<and> events_since (stub_world [Fin (9/10)])
        (snd (handleRequest (stub_env [Fin (9/10)]) (stub_request Map.empty)
               (stub_world [Fin (9/10)]))) = [DecodeJpeg]"
proof -
  let ?e = "stub_env [Fin (9/10)]" and ?w = "stub_world [Fin (9/10)]"
  have d: "decodeJpeg ?e (Map.empty ''image'') = Inl (OtherError ''contents must be a Uint8Array'')"
    by (simp add: stub_decode_fails)
  have m: "(Map.empty :: string \<rightharpoonup> string) ''image'' = None \<or> Map.empty ''image'' = Some []"
    by simp
  from C6_missing_image_is_decode_failure [where e = ?e and w = ?w
      and request = "stub_request Map.empty" and form = Map.empty
      and cause = "OtherError ''contents must be a Uint8Array''"] m d
  show ?thesis
    by (simp add: stub_world_facts stub_request_def)
qed

text \<open>
  C6 as stated fails: a request with no image field takes the path of a request whose
  image cannot be decoded. The decoder is called, and the answer and the world left
  behind are those of the undecodable image.
\<close>

theorem C6_counterexample:
  "events_since (stub_world [Fin (9/10)])
      (snd (handleRequest (stub_env [Fin (9/10)]) (stub_request Map.empty) (stub_world [Fin (9/10)])))
     = [DecodeJpeg]
   \<and> handleRequest (stub_env [Fin (9/10)]) (stub_request Map.empty) (stub_world [Fin (9/10)])
     = handleRequest (stub_env [Fin (9/10)]) (stub_request [''image'' \<mapsto> ''GIF89a''])
         (stub_world [Fin (9/10)])"
proof -
  let ?e = "stub_env [Fin (9/10)]" and ?w = "stub_world [Fin (9/10)]"
  have d1: "decodeJpeg ?e None = Inl (OtherError ''contents must be a Uint8Array'')"
    and d2: "decodeJpeg ?e (Some ''GIF89a'') =
               Inl (OtherError ''Expected image (JPEG), but got unknown format'')"
    by (simp_all add: stub_env_def)
  have p1: "predict ?e (stub_request Map.empty) ?w =
     (Inl (InputError ''Terjadi kesalahan dalam melakukan prediksi''),
      ?w\<lparr>trace := trace ?w @ [DecodeJpeg]\<rparr>)"
    by (rule predict_decode_fails [where form = Map.empty]) (simp_all add: stub_request_def d1)
  have p2: "predict ?e (stub_request [''image'' \<mapsto> ''GIF89a'']) ?w =
     (Inl (InputError ''Terjadi kesalahan dalam melakukan prediksi''),
      ?w\<lparr>trace := trace ?w @ [DecodeJpeg]\<rparr>)"
    by (rule predict_decode_fails [where form = "[''image'' \<mapsto> ''GIF89a'']"])
       (simp_all add: stub_request_def d2)
  show ?thesis
    by (simp add: handleRequest_def stub_world_facts lookup_predict stub_request_def
        p1 [unfolded stub_request_def] p2 [unfolded stub_request_def] events_since_def)
qed

section \<open>The model artifacts at startup\<close>

text \<open>
  C3, as the code has it. Only the creation of the model directory depends on what is
  on disk: it is made when it does not exist yet. The topology file and the four weight
  shards are downloaded from the bucket at every startup, in this order, whether or not
  local copies exist, and each local copy is overwritten with what the bucket sent; no
  file is reused without a download. (A transfer that fails ends the startup.)
\<close>

theorem C3_every_startup_downloads:
  assumes "\<forall>f \<in> set (MODEL_PATH # modelWeights). \<exists>c. bucket_file e BUCKET_NAME f = Inr c"
  shows "filter is_Download (events_since w (snd (loadModel e w))) =
           map (\<lambda>f. Download BUCKET_NAME f (path_join (path_join (dirname e) ''model'') f))
             (MODEL_PATH # modelWeights)
       \<and> map (files (snd (loadModel e w)))
           (map (path_join (path_join (dirname e) ''model'')) (MODEL_PATH # modelWeights)) =
           map (\<lambda>f. case bucket_file e BUCKET_NAME f of
                       Inl _ \<Rightarrow> None
                     | Inr c \<Rightarrow> Some (File c))
             (MODEL_PATH # modelWeights)
       \<and> (MkdirSync (path_join (dirname e) ''model'') \<in> set (events_since w (snd (loadModel e w))))
           = (files w (path_join (dirname e) ''model'') = None)"
proof -
  from assms obtain c0 c1 c2 c3 c4 where c:
    "bucket_file e BUCKET_NAME ''model.json'' = Inr c0"
    "bucket_file e BUCKET_NAME ''group1-shard1of4.bin'' = Inr c1"
    "bucket_file e BUCKET_NAME ''group1-shard2of4.bin'' = Inr c2"
    "bucket_file e BUCKET_NAME ''group1-shard3of4.bin'' = Inr c3"
    "bucket_file e BUCKET_NAME ''group1-shard4of4.bin'' = Inr c4"
    by (auto simp add: MODEL_PATH_def modelWeights_def)
  have calls: "filter is_Download (events_since w (snd (loadModel e w))) =
           map (\<lambda>f. Download BUCKET_NAME f (path_join (path_join (dirname e) ''model'') f))
             (MODEL_PATH # modelWeights)"
    and dir: "(MkdirSync (path_join (dirname e) ''model'')
                 \<in> set (events_since w (snd (loadModel e w))))
           = (files w (path_join (dirname e) ''model'') = None)"
    by (simp_all add: loadModel_run [OF c] Let_def MODEL_PATH_def modelWeights_def)
  have copies: "map (files (snd (loadModel e w)))
           (map (path_join (path_join (dirname e) ''model'')) (MODEL_PATH # modelWeights)) =
           map (\<lambda>f. case bucket_file e BUCKET_NAME f of
                       Inl _ \<Rightarrow> None
                     | Inr c \<Rightarrow> Some (File c))
             (MODEL_PATH # modelWeights)"
    unfolding loadModel_files [OF c] using c by (simp add: MODEL_PATH_def modelWeights_def)
  from calls copies dir show ?thesis by blast
qed

theorem C3_every_startup_downloads_witness:
  "filter is_Download (events_since (boot stub_files (\<lambda>_. Map.empty))
       (snd (loadModel (stub_env [Fin (9/10)]) (boot stub_files (\<lambda>_. Map.empty))))) =
     [Download ''model_mlgc_yasin'' ''model.json'' ''/app/model/model.json'',
      Download ''model_mlgc_yasin'' ''group1-shard1of4.bin'' ''/app/model/group1-shard1of4.bin'',
      Download ''model_mlgc_yasin'' ''group1-shard2of4.bin'' ''/app/model/group1-shard2of4.bin'',
      Download ''model_mlgc_yasin'' ''group1-shard3of4.bin'' ''/app/model/group1-shard3of4.bin'',
      Download ''model_mlgc_yasin'' ''group1-shard4of4.bin'' ''/app/model/group1-shard4of4.bin'']
   \<and> MkdirSync ''/app/model'' \<in> set (events_since (boot stub_files (\<lambda>_. Map.empty))
       (snd (loadModel (stub_env [Fin (9/10)]) (boot stub_files (\<lambda>_. Map.empty)))))"
proof -
  have t: "\<forall>f \<in> set (MODEL_PATH # modelWeights).
      \<exists>c. bucket_file (stub_env [Fin (9/10)]) BUCKET_NAME f = Inr c"
    by (simp add: stub_env_def)
  from C3_every_startup_downloads [OF t, of "boot stub_files (\<lambda>_. Map.empty)"]
  show ?thesis
    by (simp add: stub_env_sel path_join_def MODEL_PATH_def modelWeights_def BUCKET_NAME_def
        boot_def stub_files_def)
qed

text \<open>
  C3 as stated fails: started on the files that a previous startup has left (the
  directory, the topology file and the four shards are all there), \<open>loadModel\<close> downloads
  all five again.
\<close>

theorem C3_counterexample:
  "map (files (boot (files (stub_world [Fin (9/10)])) (\<lambda>_. Map.empty)))
     [''/app/model'', ''/app/model/model.json'', ''/app/model/group1-shard1of4.bin'',
      ''/app/model/group1-shard2of4.bin'', ''/app/model/group1-shard3of4.bin'',
      ''/app/model/group1-shard4of4.bin''] =
     [Some Dir, Some (File ''model.json''), Some (File ''group1-shard1of4.bin''),
      Some (File ''group1-shard2of4.bin''), Some (File ''group1-shard3of4.bin''),
      Some (File ''group1-shard4of4.bin'')]
   \<and> filter is_Download (events_since (boot (files (stub_world [Fin (9/10)])) (\<lambda>_. Map.empty))
       (snd (loadModel (stub_env [Fin (9/10)])
              (boot (files (stub_world [Fin (9/10)])) (\<lambda>_. Map.empty))))) =
     [Download ''model_mlgc_yasin'' ''model.json'' ''/app/model/model.json'',
      Download ''model_mlgc_yasin'' ''group1-shard1of4.bin'' ''/app/model/group1-shard1of4.bin'',
      Download ''model_mlgc_yasin'' ''group1-shard2of4.bin'' ''/app/model/group1-shard2of4.bin'',
      Download ''model_mlgc_yasin'' ''group1-shard3of4.bin'' ''/app/model/group1-shard3of4.bin'',
      Download ''model_mlgc_yasin'' ''group1-shard4of4.bin'' ''/app/model/group1-shard4of4.bin'']"
proof -
  have "map (files (boot (files (stub_world [Fin (9/10)])) (\<lambda>_. Map.empty)))
     [''/app/model'', ''/app/model/model.json'', ''/app/model/group1-shard1of4.bin'',
      ''/app/model/group1-shard2of4.bin'', ''/app/model/group1-shard3of4.bin'',
      ''/app/model/group1-shard4of4.bin''] =
     [Some Dir, Some (File ''model.json''), Some (File ''group1-shard1of4.bin''),
      Some (File ''group1-shard2of4.bin''), Some (File ''group1-shard3of4.bin''),
      Some (File ''group1-shard4of4.bin'')]"
    by (simp add: boot_def stub_world_files)
  moreover have "filter is_Download
      (events_since (boot (files (stub_world [Fin (9/10)])) (\<lambda>_. Map.empty))
       (snd (loadModel (stub_env [Fin (9/10)])
              (boot (files (stub_world [Fin (9/10)])) (\<lambda>_. Map.empty))))) =
     [Download ''model_mlgc_yasin'' ''model.json'' ''/app/model/model.json'',
      Download ''model_mlgc_yasin'' ''group1-shard1of4.bin'' ''/app/model/group1-shard1of4.bin'',
      Download ''model_mlgc_yasin'' ''group1-shard2of4.bin'' ''/app/model/group1-shard2of4.bin'',
      Download ''model_mlgc_yasin'' ''group1-shard3of4.bin'' ''/app/model/group1-shard3of4.bin'',
      Download ''model_mlgc_yasin'' ''group1-shard4of4.bin'' ''/app/model/group1-shard4of4.bin'']"
    by (simp add: loadModel_run [OF stub_bucket] Let_def stub_env_sel path_join_def
        MODEL_PATH_def modelWeights_def BUCKET_NAME_def)
  ultimately show ?thesis by simp
qed

section \<open>No serving without a model\<close>

text \<open>
  C8. In a run of the startup from a fresh process, if \<open>server.start\<close> is ever called,
  or the server listens at the end, then both TLS files were readable, all five artifact
  transfers succeeded, the model was loaded and is the one the server holds, and the load
  precedes the call of \<open>server.start\<close>. So when the TLS material is unreadable, a transfer
  fails or the load fails, the server is never started.
\<close>

theorem C8_no_serving_without_model:
  assumes "main e (boot fs db) = (r, w')"
    and "ServerStart \<in> set (trace w') \<or> listening (server w')"
  shows "(\<exists>key. fs (path_join (path_join (dirname e) ''cert'') ''key.pem'') = Some (File key))
       \<and> (\<exists>cert. fs (path_join (path_join (dirname e) ''cert'') ''cert.pem'') = Some (File cert))
       \<and> (\<forall>f \<in> set (MODEL_PATH # modelWeights). \<exists>c. bucket_file e BUCKET_NAME f = Inr c)
       \<and> (\<exists>m. loadGraphModel e (files w')
                 (''file://'' @ path_join (path_join (dirname e) ''model'') ''model.json'') = Inr m
              \<and> app_model (server w') = Some m)
       \<and> (\<exists>pre post. trace w' = pre @ ServerStart # post
              \<and> LoadGraphModel
                   (''file://'' @ path_join (path_join (dirname e) ''model'') ''model.json'')
                   \<in> set pre
              \<and> ServerStart \<notin> set pre)"
proof -
  let ?k = "path_join (path_join (dirname e) ''cert'') ''key.pem''"
  let ?c = "path_join (path_join (dirname e) ''cert'') ''cert.pem''"
  let ?url = "''file://'' @ path_join (path_join (dirname e) ''model'') ''model.json''"
  let ?p = "case env_PORT e of None \<Rightarrow> ''3000'' | Some p \<Rightarrow> if p = [] then ''3000'' else p"
  have key: "\<exists>key. fs ?k = Some (File key)"
  proof (rule ccontr)
    assume "\<not> ?thesis"
    with assms(1) have "trace w' = [ReadFileSync ?k] \<and> \<not> listening (server w')"
      by (auto simp add: main_def io_bind_def readFileSync_def boot_def Let_def
          split: option.splits node.splits)
    with assms(2) show False by simp
  qed
  then obtain key where k: "fs ?k = Some (File key)" by blast
  have cert: "\<exists>cert. fs ?c = Some (File cert)"
  proof (rule ccontr)
    assume "\<not> ?thesis"
    with assms(1) k have "trace w' = [ReadFileSync ?k, ReadFileSync ?c] \<and> \<not> listening (server w')"
      by (auto simp add: main_def io_bind_def readFileSync_def boot_def Let_def
          split: option.splits node.splits)
    with assms(2) show False by simp
  qed
  then obtain cert where c: "fs ?c = Some (File cert)" by blast
  define w3 where "w3 =
     \<lparr>files = fs, firestore = db, drawn = 0,
      server = \<lparr>port = ?p, app_model = None, route_table = [], listening = False\<rparr>,
      trace = [ReadFileSync ?k, ReadFileSync ?c, HapiServer]\<rparr>"
  obtain rl w4 where lm: "loadModel e w3 = (rl, w4)" by (cases "loadModel e w3")
  from no_start_loadModel [of e] lm obtain evs where
      q: "server w4 = server w3" "trace w4 = trace w3 @ evs" "ServerStart \<notin> set evs"
    unfolding no_start_def by (metis snd_conv)
  have run: "main e (boot fs db) =
     (case rl of
        Inl err \<Rightarrow> (Inl err, w4)
      | Inr m \<Rightarrow>
          (case server_start e of
             Some err \<Rightarrow>
               (Inl err, w4\<lparr>server := (server w4)\<lparr>app_model := Some m, route_table := routes\<rparr>,
                            trace := trace w4 @ [ServerRoute, ServerExt, ServerStart]\<rparr>)
           | None \<Rightarrow>
               (Inr (), w4\<lparr>server := (server w4)\<lparr>app_model := Some m, route_table := routes,
                                 listening := True\<rparr>,
                           trace := trace w4 @ [ServerRoute, ServerExt, ServerStart,
                              ConsoleLog (''Server start at: https://0.0.0.0:'' @ ?p)]\<rparr>)))"
    using k c lm [unfolded w3_def] q(1) [unfolded w3_def]
    by (simp add: main_def io_bind_def readFileSync_def boot_def Let_def
        Hapi_server_def io_modify_def io_update_def server_route_def
        server_ext_def server_start_call_def console_log_def io_call_def io_gets_def
        split: sum.splits option.splits)
  have ok: "\<exists>m. rl = Inr m"
  proof (rule ccontr)
    assume "\<not> ?thesis"
    then obtain err where "rl = Inl err" by (cases rl) auto
    with run assms(1) have "w' = w4" by simp
    with q assms(2) show False by (simp add: w3_def)
  qed
  then obtain m where m: "rl = Inr m" by blast
  from loadModel_success [OF lm [unfolded m]]
  have t: "\<forall>f \<in> set (MODEL_PATH # modelWeights). \<exists>c. bucket_file e BUCKET_NAME f = Inr c"
    and l: "loadGraphModel e (files w4) ?url = Inr m"
    and ev: "LoadGraphModel ?url \<in> set (events_since w3 w4)"
    by simp_all
  from ev q(2) have ev': "LoadGraphModel ?url \<in> set (trace w4)"
    by (simp add: events_since_def)
  from q have ns: "ServerStart \<notin> set (trace w4)" by (simp add: w3_def)
  from run m assms(1) have fin: "files w' = files w4" "app_model (server w') = Some m"
    "\<exists>post. trace w' = (trace w4 @ [ServerRoute, ServerExt]) @ ServerStart # post"
    by (auto split: option.splits)
  from fin(3) obtain post where "trace w' = (trace w4 @ [ServerRoute, ServerExt]) @ ServerStart # post"
    by blast
  with ev' ns have "\<exists>pre post. trace w' = pre @ ServerStart # post
              \<and> LoadGraphModel ?url \<in> set pre \<and> ServerStart \<notin> set pre"
    by (intro exI [of _ "trace w4 @ [ServerRoute, ServerExt]"] exI [of _ post]) simp
  with key cert t l fin show ?thesis by simp
qed

theorem C8_no_serving_without_model_witness:
  "main (stub_env [Fin (9/10)]) (boot stub_files (\<lambda>_. Map.empty)) = (Inr (), stub_world [Fin (9/10)])
   \<and> ServerStart \<in> set (trace (stub_world [Fin (9/10)]))
   \<and> listening (server (stub_world [Fin (9/10)]))
   \<and> (\<exists>m. loadGraphModel (stub_env [Fin (9/10)]) (files (stub_world [Fin (9/10)]))
              ''file:///app/model/model.json'' = Inr m
           \<and> app_model (server (stub_world [Fin (9/10)])) = Some m)
   \<and> (\<exists>pre post. trace (stub_world [Fin (9/10)]) = pre @ ServerStart # post
           \<and> LoadGraphModel ''file:///app/model/model.json'' \<in> set pre
           \<and> ServerStart \<notin> set pre)"
proof -
  let ?e = "stub_env [Fin (9/10)]" and ?w = "stub_world [Fin (9/10)]"
  have run: "main ?e (boot stub_files (\<lambda>_. Map.empty)) = (Inr (), ?w)"
    unfolding stub_world_def by (simp add: stub_main)
  have started: "ServerStart \<in> set (trace ?w)" "listening (server ?w)"
    by (simp_all add: stub_world_def stub_main)
  from C8_no_serving_without_model [OF run] started run show ?thesis
    by (simp add: stub_env_sel path_join_def)
qed

section \<open>The history route\<close>

text \<open>
  C2 does not hold of the code. The route table has the single entry POST /predict, so a
  request to POST /predict/histories matches no route and is answered 404; and the handler
  written for it, which no route names, would throw at its first statement.
\<close>

theorem C2_histories_not_routed:
  "map path routes = [''/predict'']
   \<and> lookup_route routes ''POST'' ''/predict/histories'' = None
   \<and> fst (handleRequest (stub_env [Fin (9/10)])
            \<lparr>req_method = ''POST'', req_path = ''/predict/histories'', payload = None\<rparr>
            (stub_world [Fin (9/10)])) =
       Some \<lparr>code = 404,
             body = JObject [(''status'', JString ''fail''), (''message'', JString ''Not Found'')]\<rparr>
   \<and> fst (postPredictHistoriesHandler e request w) = Inl (OtherError ''getAllData is not defined'')"
  by (simp add: routes_def lookup_route_def handleRequest_def stub_world_facts h_response_def
      fail_body_def postPredictHistoriesHandler_def getAllData_def io_bind_def io_throw_def)

end
